theory Spec2Isabelle
  imports Main
begin

section \<open>arbnumbra: test case generation and verification\<close>

text \<open>
  A shallow embedding of \<^verbatim>\<open>src/arbnumbra.py\<close>: the classes \<^verbatim>\<open>NumberParser\<close>,
  \<^verbatim>\<open>TestCaseGenerator\<close>, \<^verbatim>\<open>TestCaseVerifier\<close> and \<^verbatim>\<open>SpecialCaseGenerator\<close>, and
  \<^verbatim>\<open>NumberGenerator._remove_trailing_zeros\<close>, which they call.

  The source computes with Python's \<^verbatim>\<open>decimal\<close> module, whose arithmetic reads a
  process-wide context (\<^verbatim>\<open>getcontext()\<close>). The context is the only mutable state of
  the program, so every function that touches it takes the context and returns the
  new one. Every exception the source can raise is a value of \<open>py_error\<close>. The only
  handler in the source, the \<^verbatim>\<open>except InvalidOperation\<close> of
  \<^verbatim>\<open>NumberGenerator.generate\<close>, is not on any path: nothing calls that function.
\<close>

subsection \<open>Errors and records\<close>

datatype py_error = ValueError | InvalidOperation | Overflow

record TestCase =
  num_str :: string
  precision :: int
  expected :: string
  radix :: "int option"
  base :: "int option"

subsection \<open>Python string operations used by the source\<close>

text \<open>
  Strings are lists of bytes; the model covers ASCII text. \<^verbatim>\<open>str.lower\<close> maps
  \<^verbatim>\<open>A-Z\<close> to \<^verbatim>\<open>a-z\<close>; \<^verbatim>\<open>str.split(sep)\<close> with a one-character separator
  returns at least one part; \<^verbatim>\<open>str.strip()\<close> removes ASCII white space at both ends;
  \<^verbatim>\<open>str.rstrip('0')\<close> removes the trailing zeros.
\<close>

definition lower_char :: "char \<Rightarrow> char" where
  "lower_char c =
     (case map_of (zip ''ABCDEFGHIJKLMNOPQRSTUVWXYZ'' ''abcdefghijklmnopqrstuvwxyz'') c of
        None \<Rightarrow> c
      | Some l \<Rightarrow> l)"

definition lower :: "string \<Rightarrow> string" where
  "lower s = map lower_char s"

fun split :: "char \<Rightarrow> string \<Rightarrow> string list" where
  "split sep [] = [[]]"
| "split sep (c # cs) =
     (if c = sep then [] # split sep cs
      else (case split sep cs of
              [] \<Rightarrow> [[c]]
            | p # ps \<Rightarrow> (c # p) # ps))"

definition is_space :: "char \<Rightarrow> bool" where
  "is_space c = (let n = (of_char c :: nat) in (9 \<le> n \<and> n \<le> 13) \<or> (28 \<le> n \<and> n \<le> 32))"

definition strip :: "string \<Rightarrow> string" where
  "strip s = rev (dropWhile is_space (rev (dropWhile is_space s)))"

definition rstrip_zeros :: "string \<Rightarrow> string" where
  "rstrip_zeros s = rev (dropWhile (\<lambda>c. c = CHR ''0'') (rev s))"

definition endswith_dot :: "string \<Rightarrow> bool" where
  "endswith_dot s = (s \<noteq> [] \<and> last s = CHR ''.'')"

definition is_digit :: "char \<Rightarrow> bool" where
  "is_digit c = (let n = (of_char c :: nat) in 48 \<le> n \<and> n \<le> 57)"

definition digit_val :: "char \<Rightarrow> nat" where
  "digit_val c = of_char c - 48"

definition digit_char :: "nat \<Rightarrow> char" where
  "digit_char d = (if d < 10 then ''0123456789'' ! d else CHR ''?'')"

definition digits_to_nat :: "string \<Rightarrow> nat" where
  "digits_to_nat s = foldl (\<lambda>a c. 10 * a + digit_val c) 0 s"

text \<open>\<^verbatim>\<open>str(n)\<close> for a natural number: its decimal digits, most significant first.\<close>

function str_of_nat :: "nat \<Rightarrow> string" where
  "str_of_nat n =
     (if n < 10 then [digit_char n] else str_of_nat (n div 10) @ [digit_char (n mod 10)])"
  by pat_completeness auto
termination
  by (relation "measure id") auto

declare str_of_nat.simps [simp del]

subsection \<open>Python's \<^verbatim>\<open>int(str)\<close>\<close>

text \<open>
  \<^verbatim>\<open>int(s)\<close> skips white space at both ends, reads an optional sign and then decimal
  digits, where single underscores may stand between digits; anything else raises
  \<^verbatim>\<open>ValueError\<close>. Its white space is narrower than that of \<^verbatim>\<open>str.strip\<close>: on ASCII
  text the bytes 9 to 13 and 32 only. A text of more than 4300 digits (the
  interpreter's default limit, leading zeros counted, underscores not) raises
  \<^verbatim>\<open>ValueError\<close> too.
\<close>

definition is_int_space :: "char \<Rightarrow> bool" where
  "is_int_space c = (let n = (of_char c :: nat) in (9 \<le> n \<and> n \<le> 13) \<or> n = 32)"

definition int_strip :: "string \<Rightarrow> string" where
  "int_strip s = rev (dropWhile is_int_space (rev (dropWhile is_int_space s)))"

definition int_max_str_digits :: nat where
  "int_max_str_digits = 4300"

fun int_body_ok :: "bool \<Rightarrow> string \<Rightarrow> bool" where
  "int_body_ok prev_digit [] = prev_digit"
| "int_body_ok prev_digit (c # cs) =
     (if is_digit c then int_body_ok True cs
      else if c = CHR ''_'' then prev_digit \<and> int_body_ok False cs
      else False)"

definition py_int_unsigned :: "string \<Rightarrow> py_error + int" where
  "py_int_unsigned s =
     (if int_body_ok False s \<and> length (filter is_digit s) \<le> int_max_str_digits
      then Inr (int (digits_to_nat (filter (\<lambda>c. c \<noteq> CHR ''_'') s)))
      else Inl ValueError)"

definition py_int :: "string \<Rightarrow> py_error + int" where
  "py_int s =
     (case int_strip s of
        [] \<Rightarrow> Inl ValueError
      | c # cs \<Rightarrow>
          if c = CHR ''-'' then
            (case py_int_unsigned cs of Inl e \<Rightarrow> Inl e | Inr n \<Rightarrow> Inr (- n))
          else if c = CHR ''+'' then py_int_unsigned cs
          else py_int_unsigned (c # cs))"

subsection \<open>The \<^verbatim>\<open>decimal\<close> module: values and context\<close>

text \<open>
  A finite \<^verbatim>\<open>Decimal\<close> is a sign, a coefficient and an exponent; its value is
  \<open>\<plusminus> coeff * 10 ^ dexp\<close>. Infinities and NaNs never arise in the source: the string
  handed to the constructor always holds a decimal point, which the syntax of the
  special values excludes, and \<^verbatim>\<open>Overflow\<close> is trapped in the default context.

  The context is the default one of the interpreter, \<open>prec = 28\<close>, rounding
  \<^verbatim>\<open>ROUND_HALF_EVEN\<close>, \<open>Emin = -999999\<close>, \<open>Emax = 999999\<close>, traps on
  \<^verbatim>\<open>InvalidOperation\<close>, \<^verbatim>\<open>DivisionByZero\<close> and \<^verbatim>\<open>Overflow\<close>; the source only ever
  assigns \<open>prec\<close>.
\<close>

record decimal =
  sign :: bool
  coeff :: nat
  dexp :: int

record dec_context =
  prec :: int

definition default_context :: dec_context where
  "default_context = \<lparr>prec = 28\<rparr>"

definition Emax :: int where "Emax = 999999"
definition Emin :: int where "Emin = - 999999"
definition MAX_PREC :: int where "MAX_PREC = 999999999999999999"

definition Etiny :: "dec_context \<Rightarrow> int" where
  "Etiny ctx = Emin - prec ctx + 1"

definition Etop :: "dec_context \<Rightarrow> int" where
  "Etop ctx = Emax - prec ctx + 1"

text \<open>The number of decimal digits of a coefficient (\<open>1\<close> for zero).\<close>

function ndigits :: "nat \<Rightarrow> nat" where
  "ndigits n = (if n < 10 then 1 else Suc (ndigits (n div 10)))"
  by pat_completeness auto
termination
  by (relation "measure id") auto

declare ndigits.simps [simp del]

text \<open>
  Dropping the last \<open>k\<close> digits of a coefficient under \<^verbatim>\<open>ROUND_HALF_EVEN\<close>: the
  quotient, plus one when the remainder is above half a unit, or is exactly half
  and the quotient is odd.
\<close>

definition round_half_even :: "nat \<Rightarrow> nat \<Rightarrow> nat" where
  "round_half_even c k =
     (let q = c div 10 ^ k; r = c mod 10 ^ k in
      if 2 * r > 10 ^ k then q + 1
      else if 2 * r = 10 ^ k \<and> odd q then q + 1
      else q)"

subsection \<open>The \<^verbatim>\<open>decimal\<close> operations the source calls\<close>

text \<open>
  \<^verbatim>\<open>Decimal(str)\<close>, for the strings \<^verbatim>\<open>_calculate_number\<close> builds: they hold a
  decimal point and, being cut from the lower-cased input at every \<^verbatim>\<open>e\<close>, no exponent
  marker. The constructor strips white space, drops underscores, reads an optional
  sign and then digits around at most one point, with at least one digit in all. It
  is exact: the context does not round it. Any other text raises
  \<^verbatim>\<open>InvalidOperation\<close>, which the default context traps.
\<close>

definition Decimal_unsigned :: "bool \<Rightarrow> string \<Rightarrow> py_error + decimal" where
  "Decimal_unsigned sg body =
     (case split (CHR ''.'') body of
        [ip] \<Rightarrow>
          if ip \<noteq> [] \<and> list_all is_digit ip
          then Inr \<lparr>sign = sg, coeff = digits_to_nat ip, dexp = 0\<rparr>
          else Inl InvalidOperation
      | [ip, fp] \<Rightarrow>
          if list_all is_digit ip \<and> list_all is_digit fp \<and> (ip \<noteq> [] \<or> fp \<noteq> [])
          then Inr \<lparr>sign = sg, coeff = digits_to_nat (ip @ fp), dexp = - int (length fp)\<rparr>
          else Inl InvalidOperation
      | _ \<Rightarrow> Inl InvalidOperation)"

definition Decimal_of_str :: "string \<Rightarrow> py_error + decimal" where
  "Decimal_of_str s =
     (case filter (\<lambda>c. c \<noteq> CHR ''_'') (strip s) of
        [] \<Rightarrow> Inl InvalidOperation
      | c # cs \<Rightarrow>
          if c = CHR ''-'' then Decimal_unsigned True cs
          else if c = CHR ''+'' then Decimal_unsigned False cs
          else Decimal_unsigned False (c # cs))"

text \<open>
  The rounding every arithmetic result goes through (\<^verbatim>\<open>Decimal._fix\<close>): a zero keeps
  its sign and has its exponent clamped; a coefficient of more than \<open>prec\<close> digits is
  rounded half-even to \<open>prec\<close> digits; a result whose adjusted exponent exceeds
  \<open>Emax\<close> raises \<^verbatim>\<open>Overflow\<close>; a result below \<open>Etiny\<close> is rounded at \<open>Etiny\<close>
  (\<^verbatim>\<open>Underflow\<close> is not trapped).
\<close>

definition Decimal_fix :: "dec_context \<Rightarrow> decimal \<Rightarrow> py_error + decimal" where
  "Decimal_fix ctx d =
     (if coeff d = 0 then Inr (d\<lparr>dexp := min (max (dexp d) (Etiny ctx)) Emax\<rparr>)
      else
        let exp_min = int (ndigits (coeff d)) + dexp d - prec ctx in
        if exp_min > Etop ctx then Inl Overflow
        else
          let exp_min = max exp_min (Etiny ctx) in
          if dexp d < exp_min then
            let c = round_half_even (coeff d) (nat (exp_min - dexp d));
                carry = (int (ndigits c) > prec ctx);
                c = (if carry then c div 10 else c);
                exp_min = (if carry then exp_min + 1 else exp_min)
            in if exp_min > Etop ctx then Inl Overflow
               else Inr \<lparr>sign = sign d, coeff = c, dexp = exp_min\<rparr>
          else Inr d)"

text \<open>
  \<^verbatim>\<open>Decimal(10) ** Decimal(n)\<close> for an integer \<open>n\<close>. The power of ten is exact; a
  positive one is written with up to \<open>prec - 1\<close> trailing zeros in the coefficient,
  one beyond \<open>Emax\<close> overflows, and a negative one below \<open>Etiny\<close> underflows to zero.
\<close>

definition Decimal_pow10 :: "dec_context \<Rightarrow> int \<Rightarrow> py_error + decimal" where
  "Decimal_pow10 ctx n =
     (if n = 0 then Inr \<lparr>sign = False, coeff = 1, dexp = 0\<rparr>
      else if 0 < n then
        (if Emax < n then Inl Overflow
         else let z = min n (prec ctx - 1)
              in Inr \<lparr>sign = False, coeff = 10 ^ nat z, dexp = n - z\<rparr>)
      else if Etiny ctx \<le> n then Inr \<lparr>sign = False, coeff = 1, dexp = n\<rparr>
      else Inr \<lparr>sign = False, coeff = 0, dexp = Etiny ctx\<rparr>)"

text \<open>\<^verbatim>\<open>a * b\<close>: the exact product, rounded by the context in force at the call.\<close>

definition Decimal_mul :: "dec_context \<Rightarrow> decimal \<Rightarrow> decimal \<Rightarrow> py_error + decimal" where
  "Decimal_mul ctx a b =
     Decimal_fix ctx \<lparr>sign = (sign a \<noteq> sign b), coeff = coeff a * coeff b, dexp = dexp a + dexp b\<rparr>"

text \<open>
  \<^verbatim>\<open>getcontext().prec = p\<close>: the setter accepts \<open>1 \<le> p \<le> MAX_PREC\<close> and raises
  \<^verbatim>\<open>ValueError\<close> otherwise.
\<close>

definition set_prec :: "dec_context \<Rightarrow> int \<Rightarrow> py_error + dec_context" where
  "set_prec ctx p =
     (if 1 \<le> p \<and> p \<le> MAX_PREC then Inr (ctx\<lparr>prec := p\<rparr>) else Inl ValueError)"

text \<open>
  \<^verbatim>\<open>f"{number:.{precision}f}"\<close> (\<^verbatim>\<open>Decimal.__format__\<close>). The number is first
  rescaled to the exponent \<open>- precision\<close>, padding with zeros or rounding half-even;
  this step does not read the context precision. The digits of the rescaled
  coefficient are then cut at the decimal point: the integer part is \<^verbatim>\<open>0\<close> when no
  digit stands left of the point, and the point is written only when digits follow
  it, so a precision of \<open>0\<close> gives no point. A negative precision is no format
  specifier (\<^verbatim>\<open>ValueError\<close>).
\<close>

definition rescale :: "decimal \<Rightarrow> int \<Rightarrow> nat" where
  "rescale d e =
     (if coeff d = 0 then 0
      else if e \<le> dexp d then coeff d * 10 ^ nat (dexp d - e)
      else round_half_even (coeff d) (nat (e - dexp d)))"

definition format_f :: "decimal \<Rightarrow> int \<Rightarrow> py_error + string" where
  "format_f d p =
     (if p < 0 then Inl ValueError
      else
        let digits = str_of_nat (rescale d (- p));
            dotplace = int (length digits) - p;
            intpart = (if dotplace \<le> 0 then ''0'' else take (nat dotplace) digits);
            fracpart = (if dotplace < 0 then replicate (nat (- dotplace)) (CHR ''0'') @ digits
                        else drop (nat dotplace) digits)
        in Inr ((if sign d then ''-'' else []) @ intpart
                  @ (if fracpart \<noteq> [] then CHR ''.'' # fracpart else [])))"

subsection \<open>\<^verbatim>\<open>NumberParser\<close>\<close>

definition NumberParser_split_mantissa :: "string \<Rightarrow> int \<Rightarrow> string \<times> string \<times> int" where
  "NumberParser_split_mantissa mantissa exponent =
     (let parts = split (CHR ''.'') mantissa;
          integer_part = hd parts;
          fractional_part = (if length parts > 1 then parts ! 1 else [])
      in (integer_part, fractional_part, exponent))"

definition NumberParser_split_exponent :: "string \<Rightarrow> py_error + string \<times> string \<times> int" where
  "NumberParser_split_exponent s =
     (let parts = split (CHR ''e'') (lower s) in
      case (if length parts > 1 then py_int (parts ! 1) else Inr 0) of
        Inl e \<Rightarrow> Inl e
      | Inr exponent \<Rightarrow> Inr (NumberParser_split_mantissa (hd parts) exponent))"

definition NumberParser_parse :: "string \<Rightarrow> py_error + string \<times> string \<times> int" where
  "NumberParser_parse s = NumberParser_split_exponent s"

subsection \<open>\<^verbatim>\<open>NumberGenerator._remove_trailing_zeros\<close>\<close>

definition remove_trailing_zeros :: "string \<Rightarrow> string" where
  "remove_trailing_zeros number_str =
     (let result = rstrip_zeros number_str
      in if \<not> endswith_dot result then result else result @ ''0'')"

subsection \<open>\<^verbatim>\<open>TestCaseGenerator\<close>\<close>

text \<open>
  \<^verbatim>\<open>_calculate_number\<close> multiplies under the context it is called in;
  \<^verbatim>\<open>_format_number\<close> then assigns the context precision and formats. \<^verbatim>\<open>generate\<close>
  calls them in this order, so the assignment is the last thing that touches the
  context and the next call starts from it.
\<close>

definition TestCaseGenerator_calculate_number ::
    "dec_context \<Rightarrow> string \<Rightarrow> string \<Rightarrow> int \<Rightarrow> py_error + decimal" where
  "TestCaseGenerator_calculate_number ctx integer_part fractional_part exponent =
     (let mantissa = integer_part @ ''.'' @ fractional_part in
      case Decimal_of_str mantissa of
        Inl e \<Rightarrow> Inl e
      | Inr m \<Rightarrow>
          (case Decimal_pow10 ctx exponent of
             Inl e \<Rightarrow> Inl e
           | Inr t \<Rightarrow> Decimal_mul ctx m t))"

definition TestCaseGenerator_format_number ::
    "dec_context \<Rightarrow> decimal \<Rightarrow> int \<Rightarrow> int \<Rightarrow> py_error + string \<times> dec_context" where
  "TestCaseGenerator_format_number ctx number p exponent =
     (case set_prec ctx (p + max exponent 0 + 1) of
        Inl e \<Rightarrow> Inl e
      | Inr ctx' \<Rightarrow>
          (case format_f number p of
             Inl e \<Rightarrow> Inl e
           | Inr formatted_number \<Rightarrow> Inr (remove_trailing_zeros formatted_number, ctx')))"

definition TestCaseGenerator_generate ::
    "dec_context \<Rightarrow> string \<Rightarrow> int \<Rightarrow> int option \<Rightarrow> int option \<Rightarrow> bool
       \<Rightarrow> py_error + TestCase \<times> dec_context" where
  "TestCaseGenerator_generate ctx s p rdx bs verbose =
     (case NumberParser_parse s of
        Inl e \<Rightarrow> Inl e
      | Inr (integer_part, fractional_part, exponent) \<Rightarrow>
          (case TestCaseGenerator_calculate_number ctx integer_part fractional_part exponent of
             Inl e \<Rightarrow> Inl e
           | Inr number \<Rightarrow>
               (case TestCaseGenerator_format_number ctx number p exponent of
                  Inl e \<Rightarrow> Inl e
                | Inr (formatted_number, ctx') \<Rightarrow>
                    Inr (\<lparr>num_str = s, precision = p, expected = formatted_number,
                           radix = rdx, base = bs\<rparr>, ctx'))))"

subsection \<open>\<^verbatim>\<open>TestCaseVerifier\<close>\<close>

text \<open>
  \<^verbatim>\<open>verify\<close> prints one report per record and returns nothing. A report is a
  \<open>verdict\<close>; \<open>printed\<close> is the text \<^verbatim>\<open>print\<close> writes for it. The loop regenerates
  each record under the context the previous record left. An exception of the
  generator is not caught, so it ends the loop: the result holds the reports
  printed so far and either the exception or the final context.
\<close>

datatype verdict = PASS string | FAIL string string string

definition printed :: "bool \<Rightarrow> verdict \<Rightarrow> string" where
  "printed verbose v =
     (case v of
        PASS n \<Rightarrow> (if verbose then ''PASS: '' @ n else [])
      | FAIL n e a \<Rightarrow>
          ''FAIL: '' @ n @ [CHR 0x0A] @ ''Expected: '' @ e @ [CHR 0x0A] @ ''Actual: '' @ a
            @ [CHR 0x0A])"

fun verify :: "dec_context \<Rightarrow> TestCase list \<Rightarrow> bool \<Rightarrow> verdict list \<times> (py_error + dec_context)" where
  "verify ctx [] verbose = ([], Inr ctx)"
| "verify ctx (tc # tcs) verbose =
     (case TestCaseGenerator_generate ctx (num_str tc) (precision tc) (radix tc) (base tc) verbose of
        Inl e \<Rightarrow> ([], Inl e)
      | Inr (regenerated, ctx') \<Rightarrow>
          let actual = expected regenerated;
              v = (if expected tc = actual then PASS (num_str tc)
                   else FAIL (num_str tc) (expected tc) actual);
              (vs, r) = verify ctx' tcs verbose
          in (v # vs, r))"

subsection \<open>\<^verbatim>\<open>SpecialCaseGenerator\<close>\<close>

text \<open>
  The list comprehension \<^verbatim>\<open>[TestCaseGenerator.generate(...) for ... in ...]\<close>: the
  calls run in order, each under the context the one before left, and the first
  exception ends the comprehension.
\<close>

fun generate_all ::
    "dec_context \<Rightarrow> (string \<times> int \<times> int option \<times> int option) list \<Rightarrow> bool
       \<Rightarrow> py_error + TestCase list \<times> dec_context" where
  "generate_all ctx [] verbose = Inr ([], ctx)"
| "generate_all ctx ((s, p, rdx, bs) # rest) verbose =
     (case TestCaseGenerator_generate ctx s p rdx bs verbose of
        Inl e \<Rightarrow> Inl e
      | Inr (tc, ctx') \<Rightarrow>
          (case generate_all ctx' rest verbose of
             Inl e \<Rightarrow> Inl e
           | Inr (tcs, ctx'') \<Rightarrow> Inr (tc # tcs, ctx'')))"

definition generate_special_cases :: "dec_context \<Rightarrow> bool \<Rightarrow> py_error + TestCase list \<times> dec_context" where
  "generate_special_cases ctx verbose =
     generate_all ctx
       (map (\<lambda>c. (c, 0, None, None)) [''CUSTOM_INFINITY'', ''-CUSTOM_INFINITY'', ''CUSTOM_NAN''])
       verbose"

definition pi_literal :: string where
  "pi_literal = ''3.14159265358979323846264338327950288419716939937510''"

definition generate_pi_approximations ::
    "dec_context \<Rightarrow> int \<Rightarrow> bool \<Rightarrow> py_error + TestCase list \<times> dec_context" where
  "generate_pi_approximations ctx count verbose =
     generate_all ctx (map (\<lambda>i. (pi_literal, i, None, None)) [1..count]) verbose"

subsection \<open>Rounding an expected string\<close>

text \<open>
  The relation the specification states between two renderings of one value: the
  text \<open>s\<close>, read as a decimal, \<^emph>\<open>rounded at fractional digit \<open>p + 1\<close> under
  round-half-to-even\<close>, that is, brought to \<open>p\<close> fractional digits, and written the way
  the generator writes a number (trailing zeros stripped). This definition follows
  the specification's words; it is not part of the source.
\<close>

definition rounded_at :: "int \<Rightarrow> string \<Rightarrow> py_error + string" where
  "rounded_at p s =
     (case Decimal_of_str s of
        Inl e \<Rightarrow> Inl e
      | Inr d \<Rightarrow>
          (case format_f d p of
             Inl e \<Rightarrow> Inl e
           | Inr t \<Rightarrow> Inr (remove_trailing_zeros t)))"

section \<open>Evaluation\<close>

text \<open>
  Rewrite rules that run the definitions on concrete inputs. The recursive equations
  of \<open>str_of_nat\<close> and \<open>ndigits\<close> are safe here: the simplifier decides the test of
  an \<open>if\<close> before it enters a branch.
\<close>

lemma replicate_numeral: "replicate (numeral k) c = c # replicate (numeral k - 1) c"
  by (simp add: numeral_eq_Suc)

lemmas string_eval = lower_def lower_char_def strip_def is_space_def is_digit_def digit_val_def
  digit_char_def digits_to_nat_def rstrip_zeros_def endswith_dot_def remove_trailing_zeros_def
  str_of_nat.simps replicate_numeral

lemmas parse_eval = NumberParser_parse_def NumberParser_split_exponent_def
  NumberParser_split_mantissa_def py_int_def py_int_unsigned_def int_strip_def is_int_space_def
  int_max_str_digits_def Let_def

lemmas decimal_eval = Decimal_of_str_def Decimal_unsigned_def Decimal_pow10_def Decimal_mul_def
  Decimal_fix_def set_prec_def format_f_def rescale_def round_half_even_def ndigits.simps
  Etiny_def Etop_def Emax_def Emin_def MAX_PREC_def Let_def

lemmas generate_eval = TestCaseGenerator_generate_def TestCaseGenerator_format_number_def
  set_prec_def MAX_PREC_def

lemmas all_eval = generate_eval TestCaseGenerator_calculate_number_def parse_eval decimal_eval
  string_eval

subsection \<open>Digits without division\<close>

text \<open>
  Division of long numerals is slow in the simplifier. These lemmas replace it by
  multiplication: the digit count follows from two comparisons, a rounding from a
  quotient and a remainder that are given, and \<open>str_of_nat\<close> from reading the digit
  string back.
\<close>

lemma ndigits_bounds: "10 ^ k \<le> n \<Longrightarrow> n < 10 ^ Suc k \<Longrightarrow> ndigits n = Suc k"
proof (induction k arbitrary: n)
  case 0
  then show ?case by (simp add: ndigits.simps)
next
  case (Suc k)
  define a :: nat where "a = 10 ^ k"
  have a: "1 \<le> a" by (simp add: a_def)
  from Suc.prems have b: "10 * a \<le> n" "n < 100 * a" by (simp_all add: a_def)
  from a b have "a \<le> n div 10" "n div 10 < 10 * a" "\<not> n < 10" by arith+
  then have "10 ^ k \<le> n div 10" "n div 10 < 10 ^ Suc k" "\<not> n < 10" by (simp_all add: a_def)
  with Suc.IH [of "n div 10"] show ?case
    by (subst ndigits.simps) simp
qed

lemma round_half_even_decomp:
  assumes "c = q * 10 ^ k + r" "r < 10 ^ k"
  shows "round_half_even c k =
           (if 2 * r > 10 ^ k then q + 1 else if 2 * r = 10 ^ k \<and> odd q then q + 1 else q)"
  using assms by (simp add: round_half_even_def Let_def)

lemma digits_to_nat_snoc: "digits_to_nat (s @ [c]) = 10 * digits_to_nat s + digit_val c"
  by (simp add: digits_to_nat_def)

lemma is_digit_cases: "is_digit c \<longleftrightarrow> c \<in> set ''0123456789''"
  by (cases c) (simp add: is_digit_def)

lemma digit_val_less: "is_digit c \<Longrightarrow> digit_val c < 10"
  by (auto simp: is_digit_cases digit_val_def)

lemma digit_char_val: "is_digit c \<Longrightarrow> digit_char (digit_val c) = c"
  by (auto simp: is_digit_cases digit_val_def digit_char_def)

lemma digit_val_pos: "is_digit c \<Longrightarrow> c \<noteq> CHR ''0'' \<Longrightarrow> 0 < digit_val c"
  by (auto simp: is_digit_cases digit_val_def)

lemma digits_to_nat_pos:
  "s \<noteq> [] \<Longrightarrow> list_all is_digit s \<Longrightarrow> hd s \<noteq> CHR ''0'' \<Longrightarrow> 0 < digits_to_nat s"
proof (induction s rule: rev_induct)
  case Nil
  then show ?case by simp
next
  case (snoc c s)
  show ?case
  proof (cases "s = []")
    case True
    with snoc.prems show ?thesis by (simp add: digits_to_nat_def digit_val_pos)
  next
    case False
    with snoc have "0 < digits_to_nat s" by simp
    then show ?thesis by (simp add: digits_to_nat_snoc)
  qed
qed

lemma str_of_nat_digits:
  "s \<noteq> [] \<Longrightarrow> list_all is_digit s \<Longrightarrow> hd s \<noteq> CHR ''0'' \<or> length s = 1
     \<Longrightarrow> str_of_nat (digits_to_nat s) = s"
proof (induction s rule: rev_induct)
  case Nil
  then show ?case by simp
next
  case (snoc c s)
  from snoc.prems have c: "is_digit c" by simp
  show ?case
  proof (cases "s = []")
    case True
    with c show ?thesis
      by (simp add: str_of_nat.simps digit_val_less digit_char_val digits_to_nat_def)
  next
    case False
    with snoc.prems have s: "list_all is_digit s" "hd s \<noteq> CHR ''0''" by auto
    with False have pos: "0 < digits_to_nat s" by (simp add: digits_to_nat_pos)
    from False s snoc.IH have ih: "str_of_nat (digits_to_nat s) = s" by simp
    from pos have "\<not> 10 * digits_to_nat s + digit_val c < 10" by simp
    moreover from c have "(10 * digits_to_nat s + digit_val c) div 10 = digits_to_nat s"
      "(10 * digits_to_nat s + digit_val c) mod 10 = digit_val c"
      using digit_val_less [OF c] by simp_all
    ultimately show ?thesis
      using c by (subst str_of_nat.simps) (simp add: digits_to_nat_snoc ih digit_char_val)
  qed
qed

lemmas digits_eval = digits_to_nat_def digit_val_def is_digit_def

subsection \<open>Short literals\<close>

lemma generate_1_5_at_28:
  "TestCaseGenerator_generate \<lparr>prec = 28\<rparr> ''1.5'' 1 rdx bs verbose =
     Inr (\<lparr>num_str = ''1.5'', precision = 1, expected = ''1.5'', radix = rdx, base = bs\<rparr>,
          \<lparr>prec = 2\<rparr>)"
  by (simp add: all_eval)

lemma generate_1_at_2:
  "TestCaseGenerator_generate \<lparr>prec = 2\<rparr> ''1'' 0 rdx bs verbose =
     Inr (\<lparr>num_str = ''1'', precision = 0, expected = ''1'', radix = rdx, base = bs\<rparr>,
          \<lparr>prec = 1\<rparr>)"
  by (simp add: all_eval)

lemma generate_1_5_at_1:
  "TestCaseGenerator_generate \<lparr>prec = 1\<rparr> ''1.5'' 1 rdx bs verbose =
     Inr (\<lparr>num_str = ''1.5'', precision = 1, expected = ''2.0'', radix = rdx, base = bs\<rparr>,
          \<lparr>prec = 2\<rparr>)"
  by (simp add: all_eval)

lemma generate_abc:
  "TestCaseGenerator_generate ctx ''abc'' 0 rdx bs verbose = Inl InvalidOperation"
  by (simp add: all_eval)

lemma generate_custom_infinity:
  "TestCaseGenerator_generate ctx ''CUSTOM_INFINITY'' 0 rdx bs verbose = Inl InvalidOperation"
  by (simp add: all_eval)

lemma generate_neg_custom_infinity:
  "TestCaseGenerator_generate ctx ''-CUSTOM_INFINITY'' 0 rdx bs verbose = Inl InvalidOperation"
  by (simp add: all_eval)

lemma generate_custom_nan:
  "TestCaseGenerator_generate ctx ''CUSTOM_NAN'' 0 rdx bs verbose = Inl InvalidOperation"
  by (simp add: all_eval)

lemma generate_10_at_28:
  "TestCaseGenerator_generate \<lparr>prec = 28\<rparr> ''10'' 0 rdx bs verbose =
     Inr (\<lparr>num_str = ''10'', precision = 0, expected = ''1'', radix = rdx, base = bs\<rparr>,
          \<lparr>prec = 1\<rparr>)"
  by (simp add: all_eval)

lemma generate_0_at_28:
  "TestCaseGenerator_generate \<lparr>prec = 28\<rparr> ''0'' 0 rdx bs verbose =
     Inr (\<lparr>num_str = ''0'', precision = 0, expected = [], radix = rdx, base = bs\<rparr>,
          \<lparr>prec = 1\<rparr>)"
  by (simp add: all_eval)

lemma generate_two_points:
  "TestCaseGenerator_generate \<lparr>prec = 28\<rparr> ''1.2.3'' 1 rdx bs verbose =
     Inr (\<lparr>num_str = ''1.2.3'', precision = 1, expected = ''1.2'', radix = rdx, base = bs\<rparr>,
          \<lparr>prec = 2\<rparr>)"
  by (simp add: all_eval)

lemma generate_two_markers:
  "TestCaseGenerator_generate \<lparr>prec = 28\<rparr> ''1e2e3'' 1 rdx bs verbose =
     Inr (\<lparr>num_str = ''1e2e3'', precision = 1, expected = ''100.0'', radix = rdx, base = bs\<rparr>,
          \<lparr>prec = 4\<rparr>)"
  by (simp add: all_eval)

lemma generate_2_at_28:
  "TestCaseGenerator_generate \<lparr>prec = 28\<rparr> ''2'' 1 rdx bs verbose =
     Inr (\<lparr>num_str = ''2'', precision = 1, expected = ''2.0'', radix = rdx, base = bs\<rparr>,
          \<lparr>prec = 2\<rparr>)"
  by (simp add: all_eval)

lemma generate_2_at_2:
  "TestCaseGenerator_generate \<lparr>prec = 2\<rparr> ''2'' 1 rdx bs verbose =
     Inr (\<lparr>num_str = ''2'', precision = 1, expected = ''2.0'', radix = rdx, base = bs\<rparr>,
          \<lparr>prec = 2\<rparr>)"
  by (simp add: all_eval)

subsection \<open>The literal \<^verbatim>\<open>1.23e10\<close> at precision 15\<close>

lemma parse_1_23e10: "NumberParser_parse ''1.23e10'' = Inr (''1'', ''23'', 10)"
  by (simp add: parse_eval string_eval)

lemma calculate_1_23e10:
  "TestCaseGenerator_calculate_number \<lparr>prec = 28\<rparr> ''1'' ''23'' 10 =
     Inr \<lparr>sign = False, coeff = 1230000000000, dexp = - 2\<rparr>"
  by (simp add: TestCaseGenerator_calculate_number_def decimal_eval string_eval)

lemma format_1_23e10:
  "format_f \<lparr>sign = False, coeff = 1230000000000, dexp = - 2\<rparr> 15 =
     Inr ''12300000000.000000000000000''"
  by (simp add: decimal_eval string_eval)

lemma strip_1_23e10: "remove_trailing_zeros ''12300000000.000000000000000'' = ''12300000000.0''"
  by (simp add: string_eval)

lemma generate_1_23e10:
  "TestCaseGenerator_generate \<lparr>prec = 28\<rparr> ''1.23e10'' 15 rdx bs verbose =
     Inr (\<lparr>num_str = ''1.23e10'', precision = 15, expected = ''12300000000.0'',
            radix = rdx, base = bs\<rparr>, \<lparr>prec = 26\<rparr>)"
  by (simp add: generate_eval parse_1_23e10 calculate_1_23e10 format_1_23e10 strip_1_23e10)

subsection \<open>The \<pi> literal of the catalog\<close>

lemma parse_pi:
  "NumberParser_parse pi_literal =
     Inr (''3'', ''14159265358979323846264338327950288419716939937510'', 0)"
  by (simp add: pi_literal_def parse_eval string_eval)

lemma Decimal_pi:
  "Decimal_of_str ''3.14159265358979323846264338327950288419716939937510'' =
     Inr \<lparr>sign = False, coeff = 314159265358979323846264338327950288419716939937510,
           dexp = - 50\<rparr>"
  by (simp add: Decimal_of_str_def Decimal_unsigned_def string_eval)

lemma calculate_pi:
  "TestCaseGenerator_calculate_number ctx ''3''
     ''14159265358979323846264338327950288419716939937510'' 0 =
   Decimal_fix ctx \<lparr>sign = False, coeff = 314159265358979323846264338327950288419716939937510,
                     dexp = - 50\<rparr>"
  by (simp add: TestCaseGenerator_calculate_number_def Decimal_pi Decimal_pow10_def Decimal_mul_def)

lemma ndigits_pi: "ndigits 314159265358979323846264338327950288419716939937510 = 51"
  using ndigits_bounds [of 50 314159265358979323846264338327950288419716939937510]
  by simp

lemma round_pi_23: "round_half_even 314159265358979323846264338327950288419716939937510 23 = 3141592653589793238462643383"
  using round_half_even_decomp [of 314159265358979323846264338327950288419716939937510 3141592653589793238462643383 23 27950288419716939937510]
  by simp

lemma ndigits_pi_28: "ndigits 3141592653589793238462643383 = 28"
  using ndigits_bounds [of 27 3141592653589793238462643383]
  by simp

lemma round_pi_49: "round_half_even 314159265358979323846264338327950288419716939937510 49 = 31"
  using round_half_even_decomp [of 314159265358979323846264338327950288419716939937510 31 49 4159265358979323846264338327950288419716939937510]
  by simp

lemma round_pi_48: "round_half_even 314159265358979323846264338327950288419716939937510 48 = 314"
  using round_half_even_decomp [of 314159265358979323846264338327950288419716939937510 314 48 159265358979323846264338327950288419716939937510]
  by simp

lemma round_pi_10: "round_half_even 314159265358979323846264338327950288419716939937510 10 = 31415926535897932384626433832795028841972"
  using round_half_even_decomp [of 314159265358979323846264338327950288419716939937510 31415926535897932384626433832795028841971 10 6939937510]
  by simp

lemma ndigits_pi_41: "ndigits 31415926535897932384626433832795028841972 = 41"
  using ndigits_bounds [of 40 31415926535897932384626433832795028841972]
  by simp

lemma str_pi_28_40: "str_of_nat 31415926535897932384626433830000000000000 = ''31415926535897932384626433830000000000000''"
  using str_of_nat_digits [of "''31415926535897932384626433830000000000000''"]
  by (simp add: digits_eval)

lemma str_pi_41: "str_of_nat 31415926535897932384626433832795028841972 = ''31415926535897932384626433832795028841972''"
  using str_of_nat_digits [of "''31415926535897932384626433832795028841972''"]
  by (simp add: digits_eval)

lemma round_pi_28_26: "round_half_even 3141592653589793238462643383 26 = 31"
  using round_half_even_decomp [of 3141592653589793238462643383 31 26 41592653589793238462643383]
  by simp

lemmas fix_eval = Decimal_fix_def Let_def Etop_def Etiny_def Emax_def Emin_def

lemma fix_pi_28:
  "Decimal_fix \<lparr>prec = 28\<rparr>
     \<lparr>sign = False, coeff = 314159265358979323846264338327950288419716939937510, dexp = - 50\<rparr> =
   Inr \<lparr>sign = False, coeff = 3141592653589793238462643383, dexp = - 27\<rparr>"
  by (simp add: fix_eval ndigits_pi round_pi_23 ndigits_pi_28)

lemma fix_pi_41:
  "Decimal_fix \<lparr>prec = 41\<rparr>
     \<lparr>sign = False, coeff = 314159265358979323846264338327950288419716939937510, dexp = - 50\<rparr> =
   Inr \<lparr>sign = False, coeff = 31415926535897932384626433832795028841972, dexp = - 40\<rparr>"
  by (simp add: fix_eval ndigits_pi round_pi_10 ndigits_pi_41)

lemma fix_pi_2:
  "Decimal_fix \<lparr>prec = 2\<rparr>
     \<lparr>sign = False, coeff = 314159265358979323846264338327950288419716939937510, dexp = - 50\<rparr> =
   Inr \<lparr>sign = False, coeff = 31, dexp = - 1\<rparr>"
  by (simp add: fix_eval ndigits_pi round_pi_49 ndigits.simps)

lemma fix_pi_3:
  "Decimal_fix \<lparr>prec = 3\<rparr>
     \<lparr>sign = False, coeff = 314159265358979323846264338327950288419716939937510, dexp = - 50\<rparr> =
   Inr \<lparr>sign = False, coeff = 314, dexp = - 2\<rparr>"
  by (simp add: fix_eval ndigits_pi round_pi_48 ndigits.simps)

lemmas format_eval = format_f_def rescale_def Let_def replicate_numeral

lemma format_pi_28_40:
  "format_f \<lparr>sign = False, coeff = 3141592653589793238462643383, dexp = - 27\<rparr> 40 =
     Inr ''3.1415926535897932384626433830000000000000''"
  by (simp add: format_eval str_pi_28_40)

lemma format_pi_41_40:
  "format_f \<lparr>sign = False, coeff = 31415926535897932384626433832795028841972, dexp = - 40\<rparr> 40 =
     Inr ''3.1415926535897932384626433832795028841972''"
  by (simp add: format_eval str_pi_41)

lemma format_pi_28_1:
  "format_f \<lparr>sign = False, coeff = 3141592653589793238462643383, dexp = - 27\<rparr> 1 = Inr ''3.1''"
  by (simp add: format_eval round_pi_28_26 str_of_nat.simps digit_char_def)

lemma generate_pi_40_at_28:
  "TestCaseGenerator_generate \<lparr>prec = 28\<rparr> pi_literal 40 rdx bs verbose =
     Inr (\<lparr>num_str = pi_literal, precision = 40, expected = ''3.141592653589793238462643383'',
            radix = rdx, base = bs\<rparr>, \<lparr>prec = 41\<rparr>)"
  by (simp add: generate_eval parse_pi calculate_pi fix_pi_28 format_pi_28_40 string_eval)

lemma generate_pi_40_at_41:
  "TestCaseGenerator_generate \<lparr>prec = 41\<rparr> pi_literal 40 rdx bs verbose =
     Inr (\<lparr>num_str = pi_literal, precision = 40,
            expected = ''3.1415926535897932384626433832795028841972'',
            radix = rdx, base = bs\<rparr>, \<lparr>prec = 41\<rparr>)"
  by (simp add: generate_eval parse_pi calculate_pi fix_pi_41 format_pi_41_40 string_eval)

lemma generate_pi_1_at_28:
  "TestCaseGenerator_generate \<lparr>prec = 28\<rparr> pi_literal 1 rdx bs verbose =
     Inr (\<lparr>num_str = pi_literal, precision = 1, expected = ''3.1'',
            radix = rdx, base = bs\<rparr>, \<lparr>prec = 2\<rparr>)"
  by (simp add: generate_eval parse_pi calculate_pi fix_pi_28 format_pi_28_1 string_eval)

lemma generate_pi_2_at_2:
  "TestCaseGenerator_generate \<lparr>prec = 2\<rparr> pi_literal 2 rdx bs verbose =
     Inr (\<lparr>num_str = pi_literal, precision = 2, expected = ''3.1'',
            radix = rdx, base = bs\<rparr>, \<lparr>prec = 3\<rparr>)"
  by (simp add: generate_eval parse_pi calculate_pi fix_pi_2 format_eval string_eval)

lemma generate_pi_3_at_3:
  "TestCaseGenerator_generate \<lparr>prec = 3\<rparr> pi_literal 3 rdx bs verbose =
     Inr (\<lparr>num_str = pi_literal, precision = 3, expected = ''3.14'',
            radix = rdx, base = bs\<rparr>, \<lparr>prec = 4\<rparr>)"
  by (simp add: generate_eval parse_pi calculate_pi fix_pi_3 format_eval string_eval)


lemma round_pi_43: "round_half_even 314159265358979323846264338327950288419716939937510 43 = 31415927"
  using round_half_even_decomp [of 314159265358979323846264338327950288419716939937510 31415926 43 5358979323846264338327950288419716939937510]
  by simp

lemma round_pi_42: "round_half_even 314159265358979323846264338327950288419716939937510 42 = 314159265"
  using round_half_even_decomp [of 314159265358979323846264338327950288419716939937510 314159265 42 358979323846264338327950288419716939937510]
  by simp

lemma rounded_at_pi_7: "rounded_at 7 pi_literal = Inr ''3.1415927''"
  by (simp add: rounded_at_def pi_literal_def Decimal_pi format_eval round_pi_43 string_eval)

lemma rounded_at_pi_8: "rounded_at 8 pi_literal = Inr ''3.14159265''"
  by (simp add: rounded_at_def pi_literal_def Decimal_pi format_eval round_pi_42 string_eval)

lemma rounded_at_7_of_8: "rounded_at 7 ''3.14159265'' = Inr ''3.1415926''"
  by (simp add: rounded_at_def decimal_eval format_eval string_eval)

lemma rounded_at_3_14: "rounded_at 2 ''3.14'' = Inr ''3.14''"
  by (simp add: rounded_at_def decimal_eval format_eval string_eval)

lemma upto_1_3: "[1..3] = [1, 2, 3::int]"
  by (simp add: upto_rec1)

subsection \<open>The literal \<^verbatim>\<open>1.23e10\<close> under precision 1\<close>

lemma generate_1_at_28:
  "TestCaseGenerator_generate \<lparr>prec = 28\<rparr> ''1'' 0 rdx bs verbose =
     Inr (\<lparr>num_str = ''1'', precision = 0, expected = ''1'', radix = rdx, base = bs\<rparr>,
          \<lparr>prec = 1\<rparr>)"
  by (simp add: all_eval)

lemma calculate_1_23e10_at_1:
  "TestCaseGenerator_calculate_number \<lparr>prec = 1\<rparr> ''1'' ''23'' 10 =
     Inr \<lparr>sign = False, coeff = 1, dexp = 10\<rparr>"
  by (simp add: TestCaseGenerator_calculate_number_def decimal_eval string_eval)

lemma format_1e10:
  "format_f \<lparr>sign = False, coeff = Suc 0, dexp = 10\<rparr> 15 =
     Inr ''10000000000.000000000000000''"
  by (simp add: decimal_eval string_eval)

lemma strip_1e10: "remove_trailing_zeros ''10000000000.000000000000000'' = ''10000000000.0''"
  by (simp add: string_eval)

lemma generate_1_23e10_at_1:
  "TestCaseGenerator_generate \<lparr>prec = 1\<rparr> ''1.23e10'' 15 rdx bs verbose =
     Inr (\<lparr>num_str = ''1.23e10'', precision = 15, expected = ''10000000000.0'',
            radix = rdx, base = bs\<rparr>, \<lparr>prec = 26\<rparr>)"
  by (simp add: generate_eval parse_1_23e10 calculate_1_23e10_at_1 format_1e10 strip_1e10)

subsection \<open>A literal at the edge of the exponent range\<close>

lemma format_f_total: "0 \<le> p \<Longrightarrow> \<exists>t. format_f d p = Inr t"
  by (simp add: format_f_def Let_def)

lemma parse_9_5e999999: "NumberParser_parse ''9.5e999999'' = Inr (''9'', ''5'', 999999)"
  by (simp add: parse_eval string_eval)

lemma ndigits_95e27: "ndigits 95000000000000000000000000000 = 29"
  using ndigits_bounds [of 28 95000000000000000000000000000]
  by simp

lemma ndigits_95e26: "ndigits 9500000000000000000000000000 = 28"
  using ndigits_bounds [of 27 9500000000000000000000000000]
  by simp

lemma round_95e27:
  "round_half_even 95000000000000000000000000000 (Suc 0) = 9500000000000000000000000000"
  using round_half_even_decomp [of 95000000000000000000000000000 9500000000000000000000000000 1 0]
  by simp

lemma calculate_9_5e999999_at_28:
  "TestCaseGenerator_calculate_number \<lparr>prec = 28\<rparr> ''9'' ''5'' 999999 =
     Inr \<lparr>sign = False, coeff = 9500000000000000000000000000, dexp = 999972\<rparr>"
  by (simp add: TestCaseGenerator_calculate_number_def Decimal_of_str_def Decimal_unsigned_def
        Decimal_pow10_def Decimal_mul_def fix_eval string_eval ndigits_95e27 round_95e27
        ndigits_95e26)

lemma generate_9_5e999999_at_28:
  "map_sum id snd (TestCaseGenerator_generate \<lparr>prec = 28\<rparr> ''9.5e999999'' 0 rdx bs verbose) =
     Inr \<lparr>prec = 1000000\<rparr>"
proof -
  from format_f_total [of 0 "\<lparr>sign = False, coeff = 9500000000000000000000000000, dexp = 999972\<rparr>"]
  obtain t where
    "format_f \<lparr>sign = False, coeff = 9500000000000000000000000000, dexp = 999972\<rparr> 0 = Inr t"
    by auto
  then show ?thesis
    by (simp add: generate_eval parse_9_5e999999 calculate_9_5e999999_at_28)
qed

lemma generate_1_at_1000000:
  "TestCaseGenerator_generate \<lparr>prec = 1000000\<rparr> ''1'' 0 rdx bs verbose =
     Inr (\<lparr>num_str = ''1'', precision = 0, expected = ''1'', radix = rdx, base = bs\<rparr>,
          \<lparr>prec = 1\<rparr>)"
  by (simp add: all_eval)

lemma generate_9_5e999999_at_1:
  "TestCaseGenerator_generate \<lparr>prec = 1\<rparr> ''9.5e999999'' 0 rdx bs verbose = Inl Overflow"
  by (simp add: TestCaseGenerator_generate_def parse_9_5e999999
        TestCaseGenerator_calculate_number_def decimal_eval string_eval)

subsection \<open>The \<pi> literal under the precision of its own call\<close>

lemma round_pi_47: "round_half_even 314159265358979323846264338327950288419716939937510 47 = 3142"
  using round_half_even_decomp [of 314159265358979323846264338327950288419716939937510 3141 47 59265358979323846264338327950288419716939937510]
  by simp

lemma fix_pi_4:
  "Decimal_fix \<lparr>prec = 4\<rparr>
     \<lparr>sign = False, coeff = 314159265358979323846264338327950288419716939937510, dexp = - 50\<rparr> =
   Inr \<lparr>sign = False, coeff = 3142, dexp = - 3\<rparr>"
  by (simp add: fix_eval ndigits_pi round_pi_47 ndigits.simps)

lemma generate_pi_2_at_3:
  "TestCaseGenerator_generate \<lparr>prec = 3\<rparr> pi_literal 2 rdx bs verbose =
     Inr (\<lparr>num_str = pi_literal, precision = 2, expected = ''3.14'',
            radix = rdx, base = bs\<rparr>, \<lparr>prec = 3\<rparr>)"
  by (simp add: generate_eval parse_pi calculate_pi fix_pi_3 format_eval string_eval)

lemma generate_pi_3_at_4:
  "TestCaseGenerator_generate \<lparr>prec = 4\<rparr> pi_literal 3 rdx bs verbose =
     Inr (\<lparr>num_str = pi_literal, precision = 3, expected = ''3.142'',
            radix = rdx, base = bs\<rparr>, \<lparr>prec = 4\<rparr>)"
  by (simp add: generate_eval parse_pi calculate_pi fix_pi_4 format_eval string_eval)

lemma rounded_at_3_142: "rounded_at 2 ''3.142'' = Inr ''3.14''"
  by (simp add: rounded_at_def decimal_eval format_eval string_eval)

subsection \<open>The literal \<^verbatim>\<open>1.5\<close> under precision 1\<close>

lemma parse_1_5: "NumberParser_parse ''1.5'' = Inr (''1'', ''5'', 0)"
  by (simp add: parse_eval string_eval)

lemma calculate_1_5_at_1:
  "TestCaseGenerator_calculate_number \<lparr>prec = 1\<rparr> ''1'' ''5'' 0 =
     Inr \<lparr>sign = False, coeff = 2, dexp = 0\<rparr>"
  by (simp add: TestCaseGenerator_calculate_number_def decimal_eval string_eval)

section \<open>General lemmas\<close>

subsection \<open>What a call reads and what it writes\<close>

text \<open>
  The expected string of a call is the rendering of the product computed under the
  context the call started in.
\<close>

lemma generate_multiplies_under_incoming_context:
  assumes "TestCaseGenerator_generate ctx s p rdx bs verbose = Inr (tc, ctx')"
  shows "\<exists>integer_part fractional_part exponent number t.
           NumberParser_parse s = Inr (integer_part, fractional_part, exponent) \<and>
           TestCaseGenerator_calculate_number ctx integer_part fractional_part exponent = Inr number \<and>
           format_f number p = Inr t \<and> expected tc = remove_trailing_zeros t"
  using assms
  by (auto simp: TestCaseGenerator_generate_def TestCaseGenerator_format_number_def
           split: sum.splits prod.splits)

subsection \<open>The digits of a rounded result\<close>

text \<open>
  A result of the context rounding holds at most \<open>prec\<close> digits, so the product
  \<^verbatim>\<open>_calculate_number\<close> returns is cut to the precision of the context it runs under.
\<close>

lemma ndigits_le: "0 < k \<Longrightarrow> n < 10 ^ k \<Longrightarrow> ndigits n \<le> k"
proof (induction k arbitrary: n)
  case 0
  then show ?case by simp
next
  case (Suc k)
  show ?case
  proof (cases "n < 10")
    case True
    then show ?thesis by (subst ndigits.simps) simp
  next
    case False
    with Suc.prems have k: "0 < k" by (cases k) auto
    from Suc.prems have "n div 10 < 10 ^ k" by (simp add: less_mult_imp_div_less mult.commute)
    with Suc.IH [OF k] have "ndigits (n div 10) \<le> k" by simp
    with False show ?thesis by (subst ndigits.simps) simp
  qed
qed

lemma ndigits_gt: "0 < k \<Longrightarrow> k < ndigits n \<Longrightarrow> 10 ^ k \<le> n"
  using ndigits_le [of k n] by (cases "n < 10 ^ k") auto

lemma ndigits_upper: "n < 10 ^ ndigits n"
proof (induction n rule: ndigits.induct)
  case (1 n)
  show ?case
  proof (cases "n < 10")
    case True
    then show ?thesis by (subst ndigits.simps) simp
  next
    case False
    with 1 have "n div 10 < 10 ^ ndigits (n div 10)" by simp
    then have "n < 10 * 10 ^ ndigits (n div 10)" by arith
    with False show ?thesis by (subst ndigits.simps) simp
  qed
qed

lemma ndigits_pos: "0 < ndigits n"
  by (subst ndigits.simps) simp

lemma ndigits_power: "ndigits (10 ^ k) = Suc k"
  by (rule ndigits_bounds) simp_all

lemma round_half_even_le: "round_half_even c k \<le> c div 10 ^ k + 1"
  by (simp add: round_half_even_def Let_def)

lemma round_half_even_bound:
  assumes "c < 10 ^ n" "n \<le> k + m"
  shows "round_half_even c k \<le> 10 ^ m"
proof (cases "k \<le> n")
  case True
  then have "c < 10 ^ k * 10 ^ (n - k)" using assms(1) by (simp flip: power_add)
  then have "c div 10 ^ k < 10 ^ (n - k)" by (simp add: less_mult_imp_div_less mult.commute)
  moreover have "(10::nat) ^ (n - k) \<le> 10 ^ m" using assms(2) by (intro power_increasing) auto
  ultimately show ?thesis using round_half_even_le [of c k] by linarith
next
  case False
  then have "(10::nat) ^ n \<le> 10 ^ k" by (intro power_increasing) auto
  with assms(1) have "c < 10 ^ k" by linarith
  then have "c div 10 ^ k = 0" by simp
  moreover have "(1::nat) \<le> 10 ^ m" by simp
  ultimately show ?thesis using round_half_even_le [of c k] by linarith
qed

lemma Decimal_fix_digits:
  assumes "Decimal_fix ctx d = Inr d'" "1 \<le> prec ctx"
  shows "int (ndigits (coeff d')) \<le> prec ctx"
proof (cases "coeff d = 0")
  case True
  with assms(1) have "coeff d' = 0" by (auto simp: Decimal_fix_def)
  with assms(2) show ?thesis by (simp add: ndigits.simps [of 0])
next
  case False
  define P where "P = nat (prec ctx)"
  have P: "0 < P" "int P = prec ctx" using assms(2) by (simp_all add: P_def)
  define e0 where "e0 = max (int (ndigits (coeff d)) + dexp d - prec ctx) (Etiny ctx)"
  show ?thesis
  proof (cases "dexp d < e0")
    case lt: True
    define k where "k = nat (e0 - dexp d)"
    define c where "c = round_half_even (coeff d) k"
    have "int (ndigits (coeff d)) \<le> int k + int P"
      using lt P by (simp add: k_def e0_def)
    then have "ndigits (coeff d) \<le> k + P" by linarith
    with ndigits_upper [of "coeff d"] have c_le: "c \<le> 10 ^ P"
      unfolding c_def by (rule round_half_even_bound)
    from assms(1) False lt have
      d': "coeff d' = (if int (ndigits c) > prec ctx then c div 10 else c)"
      by (auto simp: Decimal_fix_def Let_def e0_def c_def k_def split: if_splits)
    show ?thesis
    proof (cases "int (ndigits c) > prec ctx")
      case True
      then have "P < ndigits c" using P by linarith
      with P(1) have "10 ^ P \<le> c" by (rule ndigits_gt)
      with c_le have "c = 10 ^ P" by simp
      then have "c div 10 = 10 ^ (P - 1)" using P(1) by (cases P) simp_all
      then have "ndigits (c div 10) = P" using P(1) by (simp add: ndigits_power)
      with d' True P show ?thesis by simp
    next
      case False
      with d' show ?thesis by simp
    qed
  next
    case ge: False
    with assms(1) False have "d' = d"
      by (auto simp: Decimal_fix_def Let_def e0_def split: if_splits)
    with ge show ?thesis by (simp add: e0_def)
  qed
qed

lemma calculate_number_digits:
  assumes "TestCaseGenerator_calculate_number ctx integer_part fractional_part exponent = Inr number"
    "1 \<le> prec ctx"
  shows "int (ndigits (coeff number)) \<le> prec ctx"
  using assms
  by (auto simp: TestCaseGenerator_calculate_number_def Decimal_mul_def Let_def
           split: sum.splits intro: Decimal_fix_digits)

subsection \<open>The loop of the verifier\<close>

text \<open>
  When regenerating the records in order raises no exception, \<^verbatim>\<open>verify\<close> returns with
  one report per record, in order: \<open>PASS\<close> when the stored string equals the
  regenerated one, character for character, and otherwise \<open>FAIL\<close> with both strings.
\<close>

lemma verify_reports_every_record:
  assumes "generate_all ctx (map (\<lambda>tc. (num_str tc, precision tc, radix tc, base tc)) tcs) verbose
             = Inr (regenerated, ctx')"
  shows "verify ctx tcs verbose =
           (map2 (\<lambda>tc r. if expected tc = expected r then PASS (num_str tc)
                          else FAIL (num_str tc) (expected tc) (expected r)) tcs regenerated,
            Inr ctx') \<and>
         length regenerated = length tcs"
  using assms
proof (induction tcs arbitrary: ctx regenerated)
  case Nil
  then show ?case by simp
next
  case (Cons tc tcs)
  from Cons.prems obtain r c rs where
    r: "TestCaseGenerator_generate ctx (num_str tc) (precision tc) (radix tc) (base tc) verbose
          = Inr (r, c)" and
    rs: "generate_all c (map (\<lambda>tc. (num_str tc, precision tc, radix tc, base tc)) tcs) verbose
          = Inr (rs, ctx')" and
    eq: "regenerated = r # rs"
    by (auto split: sum.splits prod.splits)
  from Cons.IH [OF rs] r eq show ?case by simp
qed

subsection \<open>The shape of the expected string at a positive precision\<close>

text \<open>
  With at least one fractional digit the rendering holds a decimal point, the
  stripping stops at it, and the expected string is an optional sign, integer
  digits, the point, and fractional digits that are either the single digit \<open>0\<close> or
  do not end in \<open>0\<close>.
\<close>

lemma is_digit_digit_char: "d < 10 \<Longrightarrow> is_digit (digit_char d)"
proof -
  assume "d < 10"
  then have "d \<in> {0, 1, 2, 3, 4, 5, 6, 7, 8, 9}" by auto
  then show ?thesis by (auto simp: digit_char_def is_digit_def)
qed

lemma str_of_nat_shape: "str_of_nat n \<noteq> [] \<and> list_all is_digit (str_of_nat n)"
proof (induction n rule: str_of_nat.induct)
  case (1 n)
  show ?case
  proof (cases "n < 10")
    case True
    then show ?thesis by (subst (1 2) str_of_nat.simps) (simp add: is_digit_digit_char)
  next
    case False
    with 1 show ?thesis by (subst (1 2) str_of_nat.simps) (simp add: is_digit_digit_char)
  qed
qed

lemma format_f_shape:
  assumes "0 < p"
  shows "\<exists>ip fr. format_f d p = Inr ((if sign d then ''-'' else []) @ ip @ CHR ''.'' # fr) \<and>
           ip \<noteq> [] \<and> list_all is_digit ip \<and> fr \<noteq> [] \<and> list_all is_digit fr"
proof -
  define ds where "ds = str_of_nat (rescale d (- p))"
  have ds: "ds \<noteq> []" "list_all is_digit ds"
    using str_of_nat_shape [of "rescale d (- p)"] by (simp_all add: ds_def)
  define dotplace where "dotplace = int (length ds) - p"
  define ip where "ip = (if dotplace \<le> 0 then ''0'' else take (nat dotplace) ds)"
  define fr where "fr = (if dotplace < 0 then replicate (nat (- dotplace)) (CHR ''0'') @ ds
                        else drop (nat dotplace) ds)"
  have fr_len: "int (length fr) = p"
    using assms by (auto simp: fr_def dotplace_def)
  with assms have fr_ne: "fr \<noteq> []" by auto
  have zero: "is_digit (CHR ''0'')" by (simp add: is_digit_def)
  have fr_digits: "list_all is_digit fr"
    using ds zero by (auto simp: fr_def list_all_iff dest: in_set_dropD)
  have ip_ne: "ip \<noteq> []"
    using ds by (auto simp: ip_def)
  have ip_digits: "list_all is_digit ip"
    using ds zero by (auto simp: ip_def list_all_iff dest: in_set_takeD)
  have "format_f d p =
          Inr ((if sign d then ''-'' else []) @ ip @ (if fr \<noteq> [] then CHR ''.'' # fr else []))"
    unfolding format_f_def Let_def ip_def fr_def dotplace_def ds_def
    using assms by simp
  with fr_ne have "format_f d p = Inr ((if sign d then ''-'' else []) @ ip @ CHR ''.'' # fr)"
    by simp
  with ip_ne ip_digits fr_ne fr_digits show ?thesis by blast
qed

lemma rstrip_zeros_last: "rstrip_zeros fr \<noteq> [] \<Longrightarrow> last (rstrip_zeros fr) \<noteq> CHR ''0''"
  using hd_dropWhile [of "\<lambda>c. c = CHR ''0''" "rev fr"]
  by (simp add: rstrip_zeros_def last_rev)

lemma rstrip_zeros_subset: "set (rstrip_zeros fr) \<subseteq> set fr"
  by (auto simp: rstrip_zeros_def dest: set_dropWhileD)

lemma rstrip_zeros_after_dot:
  "rstrip_zeros (pre @ CHR ''.'' # fr) = pre @ CHR ''.'' # rstrip_zeros fr"
  by (simp add: rstrip_zeros_def dropWhile_append)

lemma remove_trailing_zeros_shape:
  assumes "list_all is_digit fr"
  shows "remove_trailing_zeros (pre @ CHR ''.'' # fr) =
           pre @ CHR ''.'' # (if rstrip_zeros fr = [] then ''0'' else rstrip_zeros fr)"
proof (cases "rstrip_zeros fr = []")
  case True
  then show ?thesis
    by (simp add: remove_trailing_zeros_def rstrip_zeros_after_dot endswith_dot_def Let_def)
next
  case False
  then have "last (rstrip_zeros fr) \<in> set fr"
    using rstrip_zeros_subset [of fr] last_in_set [of "rstrip_zeros fr"] by auto
  with assms have "is_digit (last (rstrip_zeros fr))" by (simp add: list_all_iff)
  then have "last (rstrip_zeros fr) \<noteq> CHR ''.''" by (auto simp: is_digit_def)
  with False show ?thesis
    by (simp add: remove_trailing_zeros_def rstrip_zeros_after_dot endswith_dot_def Let_def)
qed

lemma expected_shape_positive_precision:
  assumes "TestCaseGenerator_generate ctx s p rdx bs verbose = Inr (tc, ctx')" "0 < p"
  shows "\<exists>sg ip fr. expected tc = sg @ ip @ CHR ''.'' # fr \<and> (sg = [] \<or> sg = ''-'') \<and>
           ip \<noteq> [] \<and> list_all is_digit ip \<and> fr \<noteq> [] \<and> list_all is_digit fr \<and>
           (fr = ''0'' \<or> last fr \<noteq> CHR ''0'')"
proof -
  from assms(1) obtain n t where t: "format_f n p = Inr t" and
    e: "expected tc = remove_trailing_zeros t"
    by (auto simp: TestCaseGenerator_generate_def TestCaseGenerator_format_number_def
             split: sum.splits prod.splits)
  from format_f_shape [OF assms(2), of n] t obtain ip fr where
    shape: "t = (if sign n then ''-'' else []) @ ip @ CHR ''.'' # fr"
      "ip \<noteq> []" "list_all is_digit ip" "fr \<noteq> []" "list_all is_digit fr"
    by auto
  define sg where "sg = (if sign n then ''-'' else [])"
  define fr' where "fr' = (if rstrip_zeros fr = [] then ''0'' else rstrip_zeros fr)"
  have "expected tc = sg @ ip @ CHR ''.'' # fr'"
    using remove_trailing_zeros_shape [OF shape(5), of "sg @ ip"] e shape(1)
    by (simp add: sg_def fr'_def)
  moreover have "sg = [] \<or> sg = ''-''" by (simp add: sg_def)
  moreover have "fr' \<noteq> []" by (simp add: fr'_def)
  moreover have "list_all is_digit fr'"
    using shape(5) rstrip_zeros_subset [of fr] by (auto simp: fr'_def list_all_iff is_digit_def)
  moreover have "fr' = ''0'' \<or> last fr' \<noteq> CHR ''0''"
    using rstrip_zeros_last [of fr] by (simp add: fr'_def)
  ultimately show ?thesis using shape(2,3) by blast
qed

subsection \<open>Rounding the \<pi> literal directly\<close>

text \<open>
  Rounded from all its digits, the literal is \<^verbatim>\<open>3.1415927\<close> at 7 digits and
  \<^verbatim>\<open>3.14159265\<close> at 8; the latter, rounded half-even at 7 digits, is \<^verbatim>\<open>3.1415926\<close>.
  Rounding in two steps is not rounding in one.
\<close>

lemma direct_rounding_of_pi:
  "rounded_at 7 pi_literal = Inr ''3.1415927'' \<and>
   rounded_at 8 pi_literal = Inr ''3.14159265'' \<and>
   rounded_at 7 ''3.14159265'' = Inr ''3.1415926''"
  by (simp only: rounded_at_pi_7 rounded_at_pi_8 rounded_at_7_of_8 simp_thms)

section \<open>Properties\<close>

text \<open>
  C1. \<^verbatim>\<open>TestCaseGenerator.generate\<close> is not a function of its arguments alone. Three
  calls in one fresh interpreter: \<^verbatim>\<open>generate("1.5", 1)\<close> gives \<^verbatim>\<open>1.5\<close> and leaves
  precision 2; \<^verbatim>\<open>generate("1", 0)\<close> leaves precision 1; the same call
  \<^verbatim>\<open>generate("1.5", 1)\<close> now multiplies under precision 1 and gives \<^verbatim>\<open>2.0\<close>.
\<close>

theorem generate_depends_on_earlier_calls:
  "TestCaseGenerator_generate default_context ''1.5'' 1 None None False =
     Inr (\<lparr>num_str = ''1.5'', precision = 1, expected = ''1.5'', radix = None, base = None\<rparr>,
          \<lparr>prec = 2\<rparr>) \<and>
   TestCaseGenerator_generate \<lparr>prec = 2\<rparr> ''1'' 0 None None False =
     Inr (\<lparr>num_str = ''1'', precision = 0, expected = ''1'', radix = None, base = None\<rparr>,
          \<lparr>prec = 1\<rparr>) \<and>
   TestCaseGenerator_generate \<lparr>prec = 1\<rparr> ''1.5'' 1 None None False =
     Inr (\<lparr>num_str = ''1.5'', precision = 1, expected = ''2.0'', radix = None, base = None\<rparr>,
          \<lparr>prec = 2\<rparr>)"
  unfolding default_context_def
  by (simp only: generate_1_5_at_28 generate_1_at_2 generate_1_5_at_1 simp_thms)

text \<open>
  C2. The context precision is assigned after the product is computed, not before.
  In a fresh interpreter \<^verbatim>\<open>generate(\<pi>, 40)\<close> multiplies the 51-digit literal under
  precision 28 and keeps 28 digits, so the expected string has 27 fractional digits.
  Precision \<open>40 + max(0, 0) + 1 = 41\<close>, under which the product would keep 41 digits,
  is in force only when the call has returned.
\<close>

theorem product_is_rounded_before_precision_is_set:
  "TestCaseGenerator_calculate_number default_context ''3''
     ''14159265358979323846264338327950288419716939937510'' 0 =
     Inr \<lparr>sign = False, coeff = 3141592653589793238462643383, dexp = - 27\<rparr> \<and>
   TestCaseGenerator_generate default_context pi_literal 40 None None False =
     Inr (\<lparr>num_str = pi_literal, precision = 40, expected = ''3.141592653589793238462643383'',
            radix = None, base = None\<rparr>, \<lparr>prec = 41\<rparr>) \<and>
   TestCaseGenerator_calculate_number \<lparr>prec = 41\<rparr> ''3''
     ''14159265358979323846264338327950288419716939937510'' 0 =
     Inr \<lparr>sign = False, coeff = 31415926535897932384626433832795028841972, dexp = - 40\<rparr>"
  unfolding default_context_def
  by (simp only: calculate_pi fix_pi_28 fix_pi_41 generate_pi_40_at_28 simp_thms)

text \<open>
  C3. A freshly generated record does not always verify. In a fresh interpreter
  \<^verbatim>\<open>generate(\<pi>, 40)\<close> stores 27 fractional digits and leaves precision 41;
  \<^verbatim>\<open>verify\<close> then regenerates under precision 41, gets 40 fractional digits, and
  reports \<open>FAIL\<close>.
\<close>

theorem fresh_record_fails_verification:
  "TestCaseGenerator_generate default_context pi_literal 40 None None False =
     Inr (\<lparr>num_str = pi_literal, precision = 40, expected = ''3.141592653589793238462643383'',
            radix = None, base = None\<rparr>, \<lparr>prec = 41\<rparr>) \<and>
   verify \<lparr>prec = 41\<rparr>
     [\<lparr>num_str = pi_literal, precision = 40, expected = ''3.141592653589793238462643383'',
        radix = None, base = None\<rparr>] False =
     ([FAIL pi_literal ''3.141592653589793238462643383''
         ''3.1415926535897932384626433832795028841972''], Inr \<lparr>prec = 41\<rparr>)"
  unfolding default_context_def
  by (simp add: generate_pi_40_at_28 generate_pi_40_at_41)

text \<open>
  C4. At precision 0 the rendering holds no decimal point, and the stripping of
  trailing zeros eats the integer digits: \<^verbatim>\<open>generate("10", 0)\<close> gives \<^verbatim>\<open>1\<close> and
  \<^verbatim>\<open>generate("0", 0)\<close> gives the empty string. Neither has the form
  \<^verbatim>\<open><integer>.<digits>\<close>.
\<close>

theorem precision_0_strips_integer_digits:
  "format_f \<lparr>sign = False, coeff = 10, dexp = 0\<rparr> 0 = Inr ''10'' \<and>
   remove_trailing_zeros ''10'' = ''1'' \<and>
   TestCaseGenerator_generate default_context ''10'' 0 None None False =
     Inr (\<lparr>num_str = ''10'', precision = 0, expected = ''1'', radix = None, base = None\<rparr>,
          \<lparr>prec = 1\<rparr>) \<and>
   TestCaseGenerator_generate default_context ''0'' 0 None None False =
     Inr (\<lparr>num_str = ''0'', precision = 0, expected = [], radix = None, base = None\<rparr>,
          \<lparr>prec = 1\<rparr>)"
  unfolding default_context_def
  by (simp add: generate_10_at_28 generate_0_at_28 decimal_eval string_eval)

text \<open>
  C5. Malformed literals do not give the text \<^verbatim>\<open>Invalid input\<close>. A mantissa that is
  no number raises \<^verbatim>\<open>InvalidOperation\<close> out of \<^verbatim>\<open>generate\<close>, under any context; a
  second decimal point and a second exponent marker are dropped with what follows
  them, and a number is rendered.
\<close>

theorem malformed_literals:
  "TestCaseGenerator_generate ctx ''abc'' 0 rdx bs verbose = Inl InvalidOperation \<and>
   TestCaseGenerator_generate default_context ''1.2.3'' 1 None None False =
     Inr (\<lparr>num_str = ''1.2.3'', precision = 1, expected = ''1.2'', radix = None, base = None\<rparr>,
          \<lparr>prec = 2\<rparr>) \<and>
   TestCaseGenerator_generate default_context ''1e2e3'' 1 None None False =
     Inr (\<lparr>num_str = ''1e2e3'', precision = 1, expected = ''100.0'', radix = None, base = None\<rparr>,
          \<lparr>prec = 4\<rparr>)"
  unfolding default_context_def
  by (simp only: generate_abc generate_two_points generate_two_markers simp_thms)

text \<open>
  C6. Each sentinel of the special-value catalog raises \<^verbatim>\<open>InvalidOperation\<close> out of
  \<^verbatim>\<open>generate\<close>, under any context, and so does \<^verbatim>\<open>generate_special_cases\<close>: no record
  is produced.
\<close>

theorem special_cases_raise:
  "TestCaseGenerator_generate ctx ''CUSTOM_INFINITY'' 0 None None verbose = Inl InvalidOperation \<and>
   TestCaseGenerator_generate ctx ''-CUSTOM_INFINITY'' 0 None None verbose = Inl InvalidOperation \<and>
   TestCaseGenerator_generate ctx ''CUSTOM_NAN'' 0 None None verbose = Inl InvalidOperation \<and>
   generate_special_cases ctx verbose = Inl InvalidOperation"
  by (simp add: generate_special_cases_def generate_custom_infinity generate_neg_custom_infinity
        generate_custom_nan)

text \<open>
  C7. The result of \<^verbatim>\<open>generate("1.23e10", 15)\<close> depends on the call before it. In a
  fresh interpreter it is \<^verbatim>\<open>12300000000.0\<close>. After \<^verbatim>\<open>generate("1", 0)\<close>, which leaves
  precision 1, the product \<open>1.23 * 10 ^ 10\<close> is rounded to one digit, the rendering at 15
  fractional digits is \<^verbatim>\<open>10000000000.000000000000000\<close> and the expected string is
  \<^verbatim>\<open>10000000000.0\<close>.
\<close>

theorem exponent_rescaling_depends_on_context:
  "TestCaseGenerator_generate default_context ''1.23e10'' 15 None None False =
     Inr (\<lparr>num_str = ''1.23e10'', precision = 15, expected = ''12300000000.0'',
            radix = None, base = None\<rparr>, \<lparr>prec = 26\<rparr>) \<and>
   TestCaseGenerator_generate default_context ''1'' 0 None None False =
     Inr (\<lparr>num_str = ''1'', precision = 0, expected = ''1'', radix = None, base = None\<rparr>,
          \<lparr>prec = 1\<rparr>) \<and>
   TestCaseGenerator_calculate_number \<lparr>prec = 1\<rparr> ''1'' ''23'' 10 =
     Inr \<lparr>sign = False, coeff = 1, dexp = 10\<rparr> \<and>
   format_f \<lparr>sign = False, coeff = 1, dexp = 10\<rparr> 15 = Inr ''10000000000.000000000000000'' \<and>
   TestCaseGenerator_generate \<lparr>prec = 1\<rparr> ''1.23e10'' 15 None None False =
     Inr (\<lparr>num_str = ''1.23e10'', precision = 15, expected = ''10000000000.0'',
            radix = None, base = None\<rparr>, \<lparr>prec = 26\<rparr>)"
  unfolding default_context_def
  by (simp add: generate_1_23e10 generate_1_at_28 calculate_1_23e10_at_1 format_1e10
        generate_1_23e10_at_1)

text \<open>
  C8. A batch that generated without error can end \<^verbatim>\<open>verify\<close> with an exception. In a
  fresh interpreter \<^verbatim>\<open>generate("9.5e999999", 0)\<close> returns and leaves precision 1000000,
  and \<^verbatim>\<open>generate("1", 0)\<close> after it leaves precision 1. \<^verbatim>\<open>verify\<close> then regenerates the
  first record under precision 1: the product rounds up to \<open>10 ^ 1000000\<close>, beyond
  \<open>Emax\<close>, \<^verbatim>\<open>Overflow\<close> is raised, and no record is reported, whatever the stored
  strings are.
\<close>

theorem verify_ends_with_overflow:
  "map_sum id snd (TestCaseGenerator_generate default_context ''9.5e999999'' 0 None None False) =
     Inr \<lparr>prec = 1000000\<rparr> \<and>
   TestCaseGenerator_generate \<lparr>prec = 1000000\<rparr> ''1'' 0 None None False =
     Inr (\<lparr>num_str = ''1'', precision = 0, expected = ''1'', radix = None, base = None\<rparr>,
          \<lparr>prec = 1\<rparr>) \<and>
   verify \<lparr>prec = 1\<rparr>
     [\<lparr>num_str = ''9.5e999999'', precision = 0, expected = e, radix = None, base = None\<rparr>,
      \<lparr>num_str = ''1'', precision = 0, expected = ''1'', radix = None, base = None\<rparr>] False =
     ([], Inl Overflow)"
  unfolding default_context_def
  by (simp add: generate_9_5e999999_at_28 generate_1_at_1000000 generate_9_5e999999_at_1)

text \<open>
  C9. In a fresh interpreter the catalog of three approximations holds \<^verbatim>\<open>3.1\<close>,
  \<^verbatim>\<open>3.1\<close> and \<^verbatim>\<open>3.14\<close>: each product is rounded under the precision the call before
  left. The record at precision 2 is \<^verbatim>\<open>3.1\<close>, while the record at precision 3 rounded
  at the third fractional digit is \<^verbatim>\<open>3.14\<close>. Under the precision each call assigns
  (3 for precision 2, 4 for precision 3) the renderings are \<^verbatim>\<open>3.14\<close> and \<^verbatim>\<open>3.142\<close>, and
  the second rounds to the first.
\<close>

theorem pi_catalog_repeats_a_rendering:
  "generate_pi_approximations default_context 3 False =
     Inr ([\<lparr>num_str = pi_literal, precision = 1, expected = ''3.1'', radix = None, base = None\<rparr>,
           \<lparr>num_str = pi_literal, precision = 2, expected = ''3.1'', radix = None, base = None\<rparr>,
           \<lparr>num_str = pi_literal, precision = 3, expected = ''3.14'', radix = None, base = None\<rparr>],
          \<lparr>prec = 4\<rparr>) \<and>
   rounded_at 2 ''3.14'' = Inr ''3.14'' \<and> ''3.14'' \<noteq> ''3.1'' \<and>
   TestCaseGenerator_generate \<lparr>prec = 3\<rparr> pi_literal 2 None None False =
     Inr (\<lparr>num_str = pi_literal, precision = 2, expected = ''3.14'', radix = None, base = None\<rparr>,
          \<lparr>prec = 3\<rparr>) \<and>
   TestCaseGenerator_generate \<lparr>prec = 4\<rparr> pi_literal 3 None None False =
     Inr (\<lparr>num_str = pi_literal, precision = 3, expected = ''3.142'', radix = None, base = None\<rparr>,
          \<lparr>prec = 4\<rparr>) \<and>
   rounded_at 2 ''3.142'' = Inr ''3.14''"
  unfolding default_context_def generate_pi_approximations_def
  by (simp add: upto_1_3 generate_pi_1_at_28 generate_pi_2_at_2 generate_pi_3_at_3 rounded_at_3_14
        generate_pi_2_at_3 generate_pi_3_at_4 rounded_at_3_142)

text \<open>
  C10. When \<^verbatim>\<open>TestCaseGenerator.generate\<close> returns, the input parsed to some exponent
  and the context it leaves is the one it was called in with the precision set to
  \<open>precision + max(exponent, 0) + 1\<close>. The setting is what the next call computes
  under: whenever a call of \<^verbatim>\<open>generate\<close> in the context left behind returns, its
  expected string renders a product that \<^verbatim>\<open>_calculate_number\<close> computed in that
  context, and the product holds at most \<open>precision + max(exponent, 0) + 1\<close> digits,
  the precision and exponent being those of the call before.
\<close>

theorem generate_leaves_prec:
  assumes "TestCaseGenerator_generate ctx s p rdx bs verbose = Inr (tc, ctx')"
  shows "\<exists>integer_part fractional_part exponent.
           NumberParser_parse s = Inr (integer_part, fractional_part, exponent) \<and>
           ctx' = ctx\<lparr>prec := p + max exponent 0 + 1\<rparr> \<and>
           prec ctx' = p + max exponent 0 + 1 \<and>
           (\<forall>s2 p2 rdx2 bs2 verbose2 tc2 ctx2.
              TestCaseGenerator_generate ctx' s2 p2 rdx2 bs2 verbose2 = Inr (tc2, ctx2) \<longrightarrow>
              (\<exists>integer_part2 fractional_part2 exponent2 number2 t2.
                 NumberParser_parse s2 = Inr (integer_part2, fractional_part2, exponent2) \<and>
                 TestCaseGenerator_calculate_number ctx' integer_part2 fractional_part2 exponent2
                   = Inr number2 \<and>
                 int (ndigits (coeff number2)) \<le> p + max exponent 0 + 1 \<and>
                 format_f number2 p2 = Inr t2 \<and>
                 expected tc2 = remove_trailing_zeros t2))"
proof -
  from assms obtain integer_part fractional_part exponent where
    parse: "NumberParser_parse s = Inr (integer_part, fractional_part, exponent)" and
    ctx': "ctx' = ctx\<lparr>prec := p + max exponent 0 + 1\<rparr>" and
    range: "1 \<le> p + max exponent 0 + 1"
    by (auto simp: TestCaseGenerator_generate_def TestCaseGenerator_format_number_def set_prec_def
             split: sum.splits prod.splits if_splits)
  have prec: "prec ctx' = p + max exponent 0 + 1" by (simp add: ctx')
  have "\<exists>integer_part2 fractional_part2 exponent2 number2 t2.
          NumberParser_parse s2 = Inr (integer_part2, fractional_part2, exponent2) \<and>
          TestCaseGenerator_calculate_number ctx' integer_part2 fractional_part2 exponent2
            = Inr number2 \<and>
          int (ndigits (coeff number2)) \<le> p + max exponent 0 + 1 \<and>
          format_f number2 p2 = Inr t2 \<and>
          expected tc2 = remove_trailing_zeros t2"
    if next_call: "TestCaseGenerator_generate ctx' s2 p2 rdx2 bs2 verbose2 = Inr (tc2, ctx2)"
    for s2 p2 rdx2 bs2 verbose2 tc2 ctx2
  proof -
    from generate_multiplies_under_incoming_context [OF next_call]
    obtain integer_part2 fractional_part2 exponent2 number2 t2 where
      2: "NumberParser_parse s2 = Inr (integer_part2, fractional_part2, exponent2)"
        "TestCaseGenerator_calculate_number ctx' integer_part2 fractional_part2 exponent2
           = Inr number2"
        "format_f number2 p2 = Inr t2" "expected tc2 = remove_trailing_zeros t2"
      by (elim exE conjE)
    from calculate_number_digits [OF 2(2)] range prec
    have "int (ndigits (coeff number2)) \<le> p + max exponent 0 + 1" by simp
    with 2 show ?thesis by blast
  qed
  with parse ctx' prec show ?thesis by blast
qed

theorem generate_leaves_prec_witness:
  "TestCaseGenerator_generate \<lparr>prec = 28\<rparr> ''1'' 0 None None False =
     Inr (\<lparr>num_str = ''1'', precision = 0, expected = ''1'', radix = None, base = None\<rparr>,
          \<lparr>prec = 1\<rparr>) \<and>
   TestCaseGenerator_generate \<lparr>prec = 1\<rparr> ''1.5'' 1 None None False =
     Inr (\<lparr>num_str = ''1.5'', precision = 1, expected = ''2.0'', radix = None, base = None\<rparr>,
          \<lparr>prec = 2\<rparr>) \<and>
   (\<exists>number2 t2.
      TestCaseGenerator_calculate_number \<lparr>prec = 1\<rparr> ''1'' ''5'' 0 = Inr number2 \<and>
      int (ndigits (coeff number2)) \<le> 1 \<and>
      format_f number2 1 = Inr t2 \<and> ''2.0'' = remove_trailing_zeros t2)"
proof -
  have g1: "TestCaseGenerator_generate \<lparr>prec = 28\<rparr> ''1'' 0 None None False =
     Inr (\<lparr>num_str = ''1'', precision = 0, expected = ''1'', radix = None, base = None\<rparr>,
          \<lparr>prec = 1\<rparr>)"
    by (rule generate_1_at_28)
  have g2: "TestCaseGenerator_generate \<lparr>prec = 1\<rparr> ''1.5'' 1 None None False =
     Inr (\<lparr>num_str = ''1.5'', precision = 1, expected = ''2.0'', radix = None, base = None\<rparr>,
          \<lparr>prec = 2\<rparr>)"
    by (rule generate_1_5_at_1)
  from generate_leaves_prec [OF g1] obtain exponent where
    e: "(1::int) = 0 + max exponent 0 + 1" and
    nxt: "\<forall>s2 p2 rdx2 bs2 verbose2 tc2 ctx2.
              TestCaseGenerator_generate \<lparr>prec = 1\<rparr> s2 p2 rdx2 bs2 verbose2 = Inr (tc2, ctx2) \<longrightarrow>
              (\<exists>integer_part2 fractional_part2 exponent2 number2 t2.
                 NumberParser_parse s2 = Inr (integer_part2, fractional_part2, exponent2) \<and>
                 TestCaseGenerator_calculate_number \<lparr>prec = 1\<rparr> integer_part2 fractional_part2 exponent2
                   = Inr number2 \<and>
                 int (ndigits (coeff number2)) \<le> 0 + max exponent 0 + 1 \<and>
                 format_f number2 p2 = Inr t2 \<and>
                 expected tc2 = remove_trailing_zeros t2)"
    by auto
  from nxt g2 e have
    "\<exists>integer_part2 fractional_part2 exponent2 number2 t2.
       NumberParser_parse ''1.5'' = Inr (integer_part2, fractional_part2, exponent2) \<and>
       TestCaseGenerator_calculate_number \<lparr>prec = 1\<rparr> integer_part2 fractional_part2 exponent2
         = Inr number2 \<and>
       int (ndigits (coeff number2)) \<le> 1 \<and>
       format_f number2 1 = Inr t2 \<and> ''2.0'' = remove_trailing_zeros t2"
    by fastforce
  then have "\<exists>number2 t2.
      TestCaseGenerator_calculate_number \<lparr>prec = 1\<rparr> ''1'' ''5'' 0 = Inr number2 \<and>
      int (ndigits (coeff number2)) \<le> 1 \<and>
      format_f number2 1 = Inr t2 \<and> ''2.0'' = remove_trailing_zeros t2"
    by (auto simp: parse_1_5)
  with g1 g2 show ?thesis by blast
qed

end
